theory Spec2Isabelle
  imports Main
begin

section \<open>The visitor example of 8_SOLID.CPP\<close>

text \<open>
  The executable part of the file is the visitor example (lines 61 to 114): the
  hierarchy \<open>Animal\<close>, \<open>Cat\<close>, \<open>Dog\<close> with the virtual method \<open>accept\<close>, the interface
  \<open>AnimalVisitor\<close> with one \<open>visit\<close> overload per concrete class, the concrete visitor
  \<open>LifeSpanVisitor\<close> and the function \<open>exUseVisitor\<close>. Everything else in the file is
  commentary or declarations without behaviour.
\<close>

subsection \<open>Memory, output and program state\<close>

text \<open>
  \<open>LifeSpanVisitor\<close> keeps an \<open>int &\<close>, so the integers of the caller live in a store
  and a reference is an address into it. Two references to the same address alias.
  The only operations on a C++ \<open>int\<close> in the example are the initialisation with 10 and
  the assignments of the constants 10 and 13, so its values are modelled by \<open>int\<close>:
  no arithmetic is done on them.
\<close>

type_synonym addr = nat

text \<open>What has been inserted into \<open>std::cout\<close>: a string literal or an \<open>int\<close>.\<close>

datatype out = Str string | Num int

text \<open>
  The state a caller can see: the integer store, the assignments to integers that
  have been executed so far (in order, each with its target and value), and the
  items written to \<open>std::cout\<close>.
\<close>

record state =
  mem :: "addr \<Rightarrow> int"
  writes :: "(addr \<times> int) list"
  cout :: "out list"

text \<open>The assignment \<open>r = v\<close> through an \<open>int &\<close>.\<close>

definition assign :: "addr \<Rightarrow> int \<Rightarrow> state \<Rightarrow> state" where
  "assign r v s = s\<lparr>mem := (mem s)(r := v), writes := writes s @ [(r, v)]\<rparr>"

subsection \<open>The class hierarchy\<close>

text \<open>
  \<open>struct Cat : public Animal\<close> and \<open>struct Dog : public Animal\<close> declare no data
  member, so an object of either class has a single possible value. \<open>Animal\<close> is
  abstract (\<open>accept\<close> is pure virtual in it): what a handle of static type \<open>Animal\<close>
  (such as the \<open>unique_ptr<Animal>\<close> of \<open>exUseVisitor\<close>) refers to is an object of one
  of the two concrete classes.
\<close>

datatype Cat = Cat

datatype Dog = Dog

datatype Animal = Animal_Cat Cat | Animal_Dog Dog

subsection \<open>The visitor interface\<close>

text \<open>
  \<open>AnimalVisitor\<close> declares the two pure virtual overloads \<open>visit(Cat &)\<close> and
  \<open>visit(Dog &)\<close>; an object that implements the interface supplies both. A handler
  receives the animal by non-const reference, so it returns the animal as it leaves
  it, together with the new program state. The interface is open: a handler is
  arbitrary code, which may also not return normally (it may throw); that outcome is
  \<open>None\<close>. The methods are \<open>const\<close>: the visitor itself is not changed by a call.
\<close>

record 's AnimalVisitor =
  visit_Cat :: "Cat \<Rightarrow> 's \<Rightarrow> (Cat \<times> 's) option"
  visit_Dog :: "Dog \<Rightarrow> 's \<Rightarrow> (Dog \<times> 's) option"

subsection \<open>accept\<close>

text \<open>\<open>Cat::accept\<close> and \<open>Dog::accept\<close>: the body is \<open>av.visit(*this);\<close> in both, and
  overload resolution on the static type of \<open>*this\<close> selects the overload.\<close>

definition Cat_accept :: "Cat \<Rightarrow> 's AnimalVisitor \<Rightarrow> 's \<Rightarrow> (Cat \<times> 's) option" where
  "Cat_accept this av s = visit_Cat av this s"

definition Dog_accept :: "Dog \<Rightarrow> 's AnimalVisitor \<Rightarrow> 's \<Rightarrow> (Dog \<times> 's) option" where
  "Dog_accept this av s = visit_Dog av this s"

text \<open>
  The virtual call \<open>a->accept(av)\<close> through a handle of static type \<open>Animal\<close>:
  \<open>Animal::accept\<close> is pure virtual, the override of the object's class runs.
\<close>

fun accept :: "Animal \<Rightarrow> 's AnimalVisitor \<Rightarrow> 's \<Rightarrow> (Animal \<times> 's) option" where
  "accept (Animal_Cat c) av s =
     (case Cat_accept c av s of
        None \<Rightarrow> None
      | Some (c', s') \<Rightarrow> Some (Animal_Cat c', s'))"
| "accept (Animal_Dog d) av s =
     (case Dog_accept d av s of
        None \<Rightarrow> None
      | Some (d', s') \<Rightarrow> Some (Animal_Dog d', s'))"

subsection \<open>LifeSpanVisitor\<close>

text \<open>The only data member is the reference \<open>int &i\<close>; the constructor
  \<open>LifeSpanVisitor(int &i) : i(i) {}\<close> binds it.\<close>

record LifeSpanVisitor =
  i :: addr

definition LifeSpanVisitor_ctor :: "addr \<Rightarrow> LifeSpanVisitor" where
  "LifeSpanVisitor_ctor r = \<lparr>i = r\<rparr>"

text \<open>\<open>void visit(Cat &) const { i = 10; }\<close> and \<open>void visit(Dog &) const { i = 13; }\<close>.\<close>

definition LifeSpanVisitor_visit_Cat ::
  "LifeSpanVisitor \<Rightarrow> Cat \<Rightarrow> state \<Rightarrow> (Cat \<times> state) option" where
  "LifeSpanVisitor_visit_Cat this c s = Some (c, assign (i this) 10 s)"

definition LifeSpanVisitor_visit_Dog ::
  "LifeSpanVisitor \<Rightarrow> Dog \<Rightarrow> state \<Rightarrow> (Dog \<times> state) option" where
  "LifeSpanVisitor_visit_Dog this d s = Some (d, assign (i this) 13 s)"

text \<open>A \<open>LifeSpanVisitor\<close> seen as an \<open>AnimalVisitor const &\<close>: its two overrides.\<close>

definition as_AnimalVisitor :: "LifeSpanVisitor \<Rightarrow> state AnimalVisitor" where
  "as_AnimalVisitor this =
     \<lparr>visit_Cat = LifeSpanVisitor_visit_Cat this,
      visit_Dog = LifeSpanVisitor_visit_Dog this\<rparr>"

subsection \<open>exUseVisitor\<close>

text \<open>
  \<^verbatim>\<open>int years{10};\<close>
  \<^verbatim>\<open>unique_ptr<Animal> a = make_unique<Cat>();\<close>
  \<^verbatim>\<open>a->accept(LifeSpanVisitor(years));\<close>
  \<^verbatim>\<open>std::cout << "lives " << years;\<close>

  The parameter \<open>years\<close> is the address at which the local variable is placed. The
  initialisation of the local is not an assignment and is not entered in \<open>writes\<close>.
  The function returns the state in which it leaves its frame, just before the
  local variable and the animal are destroyed.
\<close>

definition exUseVisitor :: "addr \<Rightarrow> state \<Rightarrow> state option" where
  "exUseVisitor years s0 =
     (let s1 = s0\<lparr>mem := (mem s0)(years := 10)\<rparr>;
          a = Animal_Cat Cat
      in case accept a (as_AnimalVisitor (LifeSpanVisitor_ctor years)) s1 of
           None \<Rightarrow> None
         | Some (a', s2) \<Rightarrow>
             Some (s2\<lparr>cout := cout s2 @ [Str ''lives '', Num (mem s2 years)]\<rparr>))"

section \<open>Properties\<close>

subsection \<open>What accept does with a LifeSpanVisitor\<close>

lemma accept_LifeSpanVisitor_Cat:
  "accept (Animal_Cat c) (as_AnimalVisitor (LifeSpanVisitor_ctor r)) s =
     Some (Animal_Cat c, assign r 10 s)"
  by (simp add: Cat_accept_def as_AnimalVisitor_def LifeSpanVisitor_visit_Cat_def
      LifeSpanVisitor_ctor_def)

lemma accept_LifeSpanVisitor_Dog:
  "accept (Animal_Dog d) (as_AnimalVisitor (LifeSpanVisitor_ctor r)) s =
     Some (Animal_Dog d, assign r 13 s)"
  by (simp add: Dog_accept_def as_AnimalVisitor_def LifeSpanVisitor_visit_Dog_def
      LifeSpanVisitor_ctor_def)

lemma mem_assign: "mem (assign r v s) = (mem s)(r := v)"
  by (simp add: assign_def)

lemma writes_assign: "writes (assign r v s) = writes s @ [(r, v)]"
  by (simp add: assign_def)

lemma cout_assign: "cout (assign r v s) = cout s"
  by (simp add: assign_def)

lemma accept_LifeSpanVisitor:
  "accept a (as_AnimalVisitor (LifeSpanVisitor_ctor r)) s =
     Some (a, assign r (case a of Animal_Cat _ \<Rightarrow> 10 | Animal_Dog _ \<Rightarrow> 13) s)"
  by (cases a) (simp_all add: accept_LifeSpanVisitor_Cat accept_LifeSpanVisitor_Dog
      del: accept.simps)

lemma Cat_single: "(c' :: Cat) = c"
  by (cases c, cases c') simp

lemma Dog_single: "(d' :: Dog) = d"
  by (cases d, cases d') simp

subsection \<open>Dispatch\<close>

text \<open>
  C1. For every animal and every visitor, \<open>accept\<close> invokes the visitor's handler for
  the animal's own class, once, and its outcome is that handler's outcome: on a
  \<open>Cat\<close> it is \<open>visit(Cat &)\<close>, on a \<open>Dog\<close> it is \<open>visit(Dog &)\<close>, both when called on the
  concrete class and through an \<open>Animal\<close> handle. The handler of the other class is
  never invoked: replacing it by any other handler changes nothing, and with a visitor
  whose handlers only append their own name to a log, the log gains exactly the one
  name of the handler for the animal's class.
\<close>

theorem accept_invokes_handler_of_kind:
  "Cat_accept c av s = visit_Cat av c s
   \<and> Dog_accept d av s = visit_Dog av d s
   \<and> accept (Animal_Cat c) av s =
       map_option (\<lambda>(c', s'). (Animal_Cat c', s')) (visit_Cat av c s)
   \<and> accept (Animal_Dog d) av s =
       map_option (\<lambda>(d', s'). (Animal_Dog d', s')) (visit_Dog av d s)
   \<and> accept (Animal_Cat c) (av\<lparr>visit_Dog := h\<rparr>) s = accept (Animal_Cat c) av s
   \<and> accept (Animal_Dog d) (av\<lparr>visit_Cat := g\<rparr>) s = accept (Animal_Dog d) av s
   \<and> accept (Animal_Cat c)
        \<lparr>visit_Cat = (\<lambda>x l. Some (x, l @ [''visit(Cat&)''])),
         visit_Dog = (\<lambda>x l. Some (x, l @ [''visit(Dog&)'']))\<rparr> log =
       Some (Animal_Cat c, log @ [''visit(Cat&)''])
   \<and> accept (Animal_Dog d)
        \<lparr>visit_Cat = (\<lambda>x l. Some (x, l @ [''visit(Cat&)''])),
         visit_Dog = (\<lambda>x l. Some (x, l @ [''visit(Dog&)'']))\<rparr> log =
       Some (Animal_Dog d, log @ [''visit(Dog&)''])"
  by (simp add: Cat_accept_def Dog_accept_def split: option.split)

subsection \<open>The lifespan values\<close>

text \<open>
  C2. When a \<open>Cat\<close> accepts a \<open>LifeSpanVisitor\<close> built on the caller's integer \<open>r\<close>,
  \<open>accept\<close> returns and \<open>r\<close> holds 10 afterwards, whatever the state before the call.
\<close>

theorem LifeSpanVisitor_Cat_gives_10:
  "\<exists>a' s'. accept (Animal_Cat c) (as_AnimalVisitor (LifeSpanVisitor_ctor r)) s = Some (a', s')
     \<and> mem s' r = 10"
  by (simp add: accept_LifeSpanVisitor_Cat mem_assign del: accept.simps)

text \<open>
  C3. When a \<open>Dog\<close> accepts a \<open>LifeSpanVisitor\<close> built on the caller's integer \<open>r\<close>,
  \<open>accept\<close> returns and \<open>r\<close> holds 13 afterwards, whatever the state before the call.
\<close>

theorem LifeSpanVisitor_Dog_gives_13:
  "\<exists>a' s'. accept (Animal_Dog d) (as_AnimalVisitor (LifeSpanVisitor_ctor r)) s = Some (a', s')
     \<and> mem s' r = 13"
  by (simp add: accept_LifeSpanVisitor_Dog mem_assign del: accept.simps)

subsection \<open>Through the base class\<close>

text \<open>
  C4. \<open>exUseVisitor\<close> holds a \<open>Cat\<close> only as \<open>unique_ptr<Animal>\<close>; the call of \<open>accept\<close>
  through that handle still runs the \<open>Cat\<close> handler: the function returns, the handler's
  assignment of 10 to \<open>years\<close> is the one assignment executed, \<open>years\<close> is 10 at the end
  and the output is \<open>lives \<close> followed by 10. In general, for a handle of static type
  \<open>Animal\<close> the value delivered is the one of the class of the object it refers to: 10
  for a \<open>Cat\<close>, 13 for a \<open>Dog\<close>.
\<close>

theorem exUseVisitor_dispatches_on_runtime_kind:
  "exUseVisitor years s =
     Some (s\<lparr>mem := (mem s)(years := 10),
             writes := writes s @ [(years, 10)],
             cout := cout s @ [Str ''lives '', Num 10]\<rparr>)
   \<and> (\<exists>a' s'. accept a (as_AnimalVisitor (LifeSpanVisitor_ctor r)) s = Some (a', s')
         \<and> mem s' r = (case a of Animal_Cat _ \<Rightarrow> 10 | Animal_Dog _ \<Rightarrow> 13))"
proof -
  have ex: "exUseVisitor years s =
     Some (s\<lparr>mem := (mem s)(years := 10),
             writes := writes s @ [(years, 10)],
             cout := cout s @ [Str ''lives '', Num 10]\<rparr>)"
    by (simp add: exUseVisitor_def accept_LifeSpanVisitor_Cat assign_def del: accept.simps)
  have "\<exists>a' s'. accept a (as_AnimalVisitor (LifeSpanVisitor_ctor r)) s = Some (a', s')
         \<and> mem s' r = (case a of Animal_Cat _ \<Rightarrow> 10 | Animal_Dog _ \<Rightarrow> 13)"
    by (simp add: accept_LifeSpanVisitor mem_assign del: accept.simps)
  with ex show ?thesis by simp
qed

subsection \<open>Determinism\<close>

text \<open>
  C5. Two invocations of \<open>accept\<close> on an animal of the same class, each with a
  \<open>LifeSpanVisitor\<close>, deliver the same value, whatever the two output integers \<open>r\<close> and
  \<open>q\<close> are (equal or not) and whatever the two states before the calls are; both calls
  return. The same holds when the second call follows the first on the state the first
  one left, and then the value delivered by the first call is still in \<open>r\<close>.
\<close>

theorem accept_twice_same_output:
  "(\<exists>a1 s1 a2 s2.
      accept a (as_AnimalVisitor (LifeSpanVisitor_ctor r)) s = Some (a1, s1)
    \<and> accept a (as_AnimalVisitor (LifeSpanVisitor_ctor q)) t = Some (a2, s2)
    \<and> mem s1 r = mem s2 q)
  \<and> (\<exists>a1 s1 a2 s2.
      accept a (as_AnimalVisitor (LifeSpanVisitor_ctor r)) s = Some (a1, s1)
    \<and> accept a1 (as_AnimalVisitor (LifeSpanVisitor_ctor q)) s1 = Some (a2, s2)
    \<and> mem s1 r = mem s2 q \<and> mem s2 r = mem s1 r)"
  by (simp add: accept_LifeSpanVisitor mem_assign del: accept.simps)

subsection \<open>Effect and frame\<close>

text \<open>
  C6. One invocation of a handler of \<open>LifeSpanVisitor\<close>, called directly or reached
  through \<open>accept\<close>, executes exactly one assignment, to the integer \<open>r\<close> the visitor was
  built on, and changes nothing else: the state afterwards is the state before with
  \<open>r\<close> updated and that one assignment appended to the assignments executed; every
  other integer, the output and the animal are as before.
\<close>

theorem LifeSpanVisitor_writes_output_once:
  "accept a (as_AnimalVisitor (LifeSpanVisitor_ctor r)) s =
     Some (a, s\<lparr>mem := (mem s)(r := (case a of Animal_Cat _ \<Rightarrow> 10 | Animal_Dog _ \<Rightarrow> 13)),
                writes := writes s @
                  [(r, (case a of Animal_Cat _ \<Rightarrow> 10 | Animal_Dog _ \<Rightarrow> 13))]\<rparr>)
   \<and> LifeSpanVisitor_visit_Cat (LifeSpanVisitor_ctor r) c s =
        Some (c, s\<lparr>mem := (mem s)(r := 10), writes := writes s @ [(r, 10)]\<rparr>)
   \<and> LifeSpanVisitor_visit_Dog (LifeSpanVisitor_ctor r) d s =
        Some (d, s\<lparr>mem := (mem s)(r := 13), writes := writes s @ [(r, 13)]\<rparr>)"
proof (intro conjI)
  show "accept a (as_AnimalVisitor (LifeSpanVisitor_ctor r)) s =
     Some (a, s\<lparr>mem := (mem s)(r := (case a of Animal_Cat _ \<Rightarrow> 10 | Animal_Dog _ \<Rightarrow> 13)),
                writes := writes s @
                  [(r, (case a of Animal_Cat _ \<Rightarrow> 10 | Animal_Dog _ \<Rightarrow> 13))]\<rparr>)"
    by (simp add: accept_LifeSpanVisitor assign_def del: accept.simps)
  show "LifeSpanVisitor_visit_Cat (LifeSpanVisitor_ctor r) c s =
        Some (c, s\<lparr>mem := (mem s)(r := 10), writes := writes s @ [(r, 10)]\<rparr>)"
    by (simp add: LifeSpanVisitor_visit_Cat_def LifeSpanVisitor_ctor_def assign_def)
  show "LifeSpanVisitor_visit_Dog (LifeSpanVisitor_ctor r) d s =
        Some (d, s\<lparr>mem := (mem s)(r := 13), writes := writes s @ [(r, 13)]\<rparr>)"
    by (simp add: LifeSpanVisitor_visit_Dog_def LifeSpanVisitor_ctor_def assign_def)
qed

subsection \<open>No failure\<close>

text \<open>
  C7, as stated, does not hold of \<open>accept\<close> with every visitor. \<open>AnimalVisitor\<close> is an open
  interface, and \<open>accept\<close> passes on whatever its handler does: with a visitor whose
  \<open>visit(Cat &)\<close> does not return normally (it throws), \<open>accept\<close> on a \<open>Cat\<close> does not
  return either.
\<close>

theorem accept_fails_with_failing_handler:
  "accept (Animal_Cat Cat)
     \<lparr>visit_Cat = (\<lambda>c s. None), visit_Dog = (\<lambda>d s. Some (d, s))\<rparr>
     \<lparr>mem = (\<lambda>r. 0), writes = [], cout = []\<rparr> = None"
  by (simp add: Cat_accept_def)

text \<open>
  C7, amended. Nothing in the mechanism as the file defines it fails. Both handlers of
  every \<open>LifeSpanVisitor\<close> return on every animal and every state, and so does \<open>accept\<close>
  with a \<open>LifeSpanVisitor\<close>, on the concrete classes and through an \<open>Animal\<close> handle.
  \<open>accept\<close> has no failure of its own with any visitor: it fails to return exactly
  when the handler it invokes does.
\<close>

theorem accept_and_visit_always_return:
  "(\<exists>res. accept a (as_AnimalVisitor v) s = Some res)
   \<and> (\<exists>res. LifeSpanVisitor_visit_Cat v c s = Some res)
   \<and> (\<exists>res. LifeSpanVisitor_visit_Dog v d s = Some res)
   \<and> (\<exists>res. Cat_accept c (as_AnimalVisitor v) s = Some res)
   \<and> (\<exists>res. Dog_accept d (as_AnimalVisitor v) s = Some res)
   \<and> (accept (Animal_Cat c) av t = None) = (visit_Cat av c t = None)
   \<and> (accept (Animal_Dog d) av t = None) = (visit_Dog av d t = None)"
  by (cases a)
     (simp_all add: Cat_accept_def Dog_accept_def as_AnimalVisitor_def
        LifeSpanVisitor_visit_Cat_def LifeSpanVisitor_visit_Dog_def split: option.split)

subsection \<open>Independence of the initial value\<close>

text \<open>
  C9. The value in the output integer after \<open>accept\<close> with a \<open>LifeSpanVisitor\<close> does not
  depend on the value it held before: from two states that differ only in the value
  of \<open>r\<close> (\<open>x\<close> in one, \<open>y\<close> in the other), the two calls on the same animal return with the
  same value in \<open>r\<close>, indeed with the same store and the same output. For the call made
  by \<open>exUseVisitor\<close> (a \<open>Cat\<close>, the visitor built on \<open>years\<close>), \<open>years\<close> is 10 afterwards
  whatever value \<open>x\<close> it was initialised with. For \<open>exUseVisitor\<close> itself: it returns
  with 10 in \<open>years\<close>, and that 10 is the value of the one assignment executed, the
  \<open>Cat\<close> handler's; the statements of its body run with any other initial value \<open>x\<close> of
  \<open>years\<close> in place of 10 end in the same state as \<open>exUseVisitor\<close> does, output
  included; and with the initial value 10 kept and a \<open>Dog\<close> in place of the \<open>Cat\<close>,
  \<open>years\<close> is 13 after the call.
\<close>

theorem output_independent_of_initial_value:
  "(\<exists>a1 s1 a2 s2.
      accept a (as_AnimalVisitor (LifeSpanVisitor_ctor r)) (s\<lparr>mem := (mem s)(r := x)\<rparr>) =
        Some (a1, s1)
    \<and> accept a (as_AnimalVisitor (LifeSpanVisitor_ctor r)) (s\<lparr>mem := (mem s)(r := y)\<rparr>) =
        Some (a2, s2)
    \<and> mem s1 r = mem s2 r \<and> mem s1 = mem s2 \<and> cout s1 = cout s2)
  \<and> (\<exists>a' s'.
      accept (Animal_Cat Cat) (as_AnimalVisitor (LifeSpanVisitor_ctor years))
        (s\<lparr>mem := (mem s)(years := x)\<rparr>) = Some (a', s')
    \<and> mem s' years = 10)
  \<and> (\<exists>s'. exUseVisitor years s = Some s'
        \<and> mem s' years = 10
        \<and> writes s' = writes s @ [(years, 10)]
        \<and> cout s' = cout s @ [Str ''lives '', Num 10])
  \<and> (case accept (Animal_Cat Cat) (as_AnimalVisitor (LifeSpanVisitor_ctor years))
             (s\<lparr>mem := (mem s)(years := x)\<rparr>) of
        None \<Rightarrow> None
      | Some (a', s2) \<Rightarrow>
          Some (s2\<lparr>cout := cout s2 @ [Str ''lives '', Num (mem s2 years)]\<rparr>))
      = exUseVisitor years s
  \<and> (\<exists>a' s'.
      accept (Animal_Dog Dog) (as_AnimalVisitor (LifeSpanVisitor_ctor years))
        (s\<lparr>mem := (mem s)(years := 10)\<rparr>) = Some (a', s')
    \<and> mem s' years = 13)"
proof (intro conjI)
  show "\<exists>a1 s1 a2 s2.
      accept a (as_AnimalVisitor (LifeSpanVisitor_ctor r)) (s\<lparr>mem := (mem s)(r := x)\<rparr>) =
        Some (a1, s1)
    \<and> accept a (as_AnimalVisitor (LifeSpanVisitor_ctor r)) (s\<lparr>mem := (mem s)(r := y)\<rparr>) =
        Some (a2, s2)
    \<and> mem s1 r = mem s2 r \<and> mem s1 = mem s2 \<and> cout s1 = cout s2"
    by (simp add: accept_LifeSpanVisitor mem_assign cout_assign del: accept.simps)
  show "\<exists>a' s'.
      accept (Animal_Cat Cat) (as_AnimalVisitor (LifeSpanVisitor_ctor years))
        (s\<lparr>mem := (mem s)(years := x)\<rparr>) = Some (a', s')
    \<and> mem s' years = 10"
    by (simp add: accept_LifeSpanVisitor_Cat mem_assign del: accept.simps)
  show "\<exists>s'. exUseVisitor years s = Some s'
        \<and> mem s' years = 10
        \<and> writes s' = writes s @ [(years, 10)]
        \<and> cout s' = cout s @ [Str ''lives '', Num 10]"
    by (simp add: exUseVisitor_def accept_LifeSpanVisitor_Cat assign_def del: accept.simps)
  show "(case accept (Animal_Cat Cat) (as_AnimalVisitor (LifeSpanVisitor_ctor years))
             (s\<lparr>mem := (mem s)(years := x)\<rparr>) of
        None \<Rightarrow> None
      | Some (a', s2) \<Rightarrow>
          Some (s2\<lparr>cout := cout s2 @ [Str ''lives '', Num (mem s2 years)]\<rparr>))
      = exUseVisitor years s"
    by (simp add: exUseVisitor_def accept_LifeSpanVisitor_Cat assign_def del: accept.simps)
  show "\<exists>a' s'.
      accept (Animal_Dog Dog) (as_AnimalVisitor (LifeSpanVisitor_ctor years))
        (s\<lparr>mem := (mem s)(years := 10)\<rparr>) = Some (a', s')
    \<and> mem s' years = 13"
    by (simp add: accept_LifeSpanVisitor_Dog mem_assign del: accept.simps)
qed

subsection \<open>The animal is left unchanged\<close>

text \<open>
  C10. \<open>accept\<close> leaves the animal as it was. With a \<open>LifeSpanVisitor\<close> the call returns
  and the animal afterwards is the animal before, for \<open>accept\<close> and for each handler
  called directly. With any visitor at all, whenever \<open>accept\<close> returns the animal is
  the one before the call: \<open>Cat\<close> and \<open>Dog\<close> have no data member that a handler could
  change through the reference it receives.
\<close>

theorem accept_leaves_animal_unchanged:
  "map_option fst (accept a (as_AnimalVisitor v) s) = Some a
   \<and> map_option fst (LifeSpanVisitor_visit_Cat v c s) = Some c
   \<and> map_option fst (LifeSpanVisitor_visit_Dog v d s) = Some d
   \<and> map_option fst (accept a av t) = map_option (\<lambda>_. a) (accept a av t)"
proof (intro conjI)
  show "map_option fst (accept a (as_AnimalVisitor v) s) = Some a"
    by (cases a)
       (simp_all add: Cat_accept_def Dog_accept_def as_AnimalVisitor_def
          LifeSpanVisitor_visit_Cat_def LifeSpanVisitor_visit_Dog_def)
  show "map_option fst (LifeSpanVisitor_visit_Cat v c s) = Some c"
    by (simp add: LifeSpanVisitor_visit_Cat_def)
  show "map_option fst (LifeSpanVisitor_visit_Dog v d s) = Some d"
    by (simp add: LifeSpanVisitor_visit_Dog_def)
  show "map_option fst (accept a av t) = map_option (\<lambda>_. a) (accept a av t)"
    by (cases a) (auto simp: Cat_single Dog_single split: option.split)
qed

end
